theory Spec2Isabelle
  imports Complex_Main
begin

section \<open>Conventions of the embedding\<close>

text \<open>
  The repository holds several versions of one Python class, \<^verbatim>\<open>FundQuantSystem\<close>. Two
  of them are embedded here: \<^verbatim>\<open>fund_quant_system_final.py\<close> (moving averages, RSI, trend
  advice, batch analysis) and \<^verbatim>\<open>fund_quant_system_simple.py\<close> (a five minute cache in
  front of the realtime request and advice from the same-day growth alone). Both files
  name their methods alike, so the methods of the simple file carry the suffix
  \<open>_simple\<close> here. Line numbers refer to the file a section is about.

  Python floats are idealised as exact reals (\<^typ>\<open>real\<close>): rounding, infinities and NaN are
  outside the model. A Python exception that leaves a function is a value \<open>Inl e\<close> of the
  result type; \<open>Inr v\<close> is a normal return of \<open>v\<close>.
\<close>

datatype py_error = TypeError | ValueError | ZeroDivisionError | RequestException

section \<open>fund\_quant\_system\_final.py: indicators\<close>

text \<open>
  One element of \<^verbatim>\<open>history_data\<close> is the dict \<^verbatim>\<open>{'date': ..., 'nav': ...}\<close> that
  \<^verbatim>\<open>get_fund_history_nav\<close> builds from a pair of the remote JSON array. The nav is whatever
  JSON value stood there: \<open>Some v\<close> is a number, \<open>None\<close> stands for any value that is not
  a number (JSON \<^verbatim>\<open>null\<close> in particular), on which Python arithmetic raises TypeError.
\<close>

record hist_item =
  date :: string
  nav :: "real option"

text \<open>Python's \<^verbatim>\<open>sum(xs)\<close>: a left fold from 0 that raises on the first non-number.\<close>

fun py_sum :: "real \<Rightarrow> real option list \<Rightarrow> py_error + real" where
  "py_sum acc [] = Inr acc"
| "py_sum acc (None # vs) = Inl TypeError"
| "py_sum acc (Some v # vs) = py_sum (acc + v) vs"

text \<open>The slice \<^verbatim>\<open>xs[i:j]\<close> for \<open>0 \<le> i \<le> j\<close> (Python clips it at the end of the list).\<close>

definition slice :: "nat \<Rightarrow> nat \<Rightarrow> 'a list \<Rightarrow> 'a list" where
  "slice i j xs = take (j - i) (drop i xs)"

text \<open>The slice \<^verbatim>\<open>xs[-n:]\<close>: the last \<open>n\<close> elements, the whole list when it is shorter,
  and the whole list for \<open>n = 0\<close> (\<^verbatim>\<open>xs[-0:]\<close> is \<^verbatim>\<open>xs[0:]\<close>).\<close>

definition last_n :: "nat \<Rightarrow> 'a list \<Rightarrow> 'a list" where
  "last_n n xs = (if n = 0 then xs else drop (length xs - n) xs)"

text \<open>A list comprehension whose elements may raise: the first exception ends it.\<close>

fun collect :: "(py_error + 'a) list \<Rightarrow> py_error + 'a list" where
  "collect [] = Inr []"
| "collect (Inl e # rs) = Inl e"
| "collect (Inr x # rs) = (case collect rs of Inl e \<Rightarrow> Inl e | Inr xs \<Rightarrow> Inr (x # xs))"

text \<open>\<^verbatim>\<open>sum(values[i:i+period]) / period\<close>, one element of the comprehension of
  \<^verbatim>\<open>calculate_ma\<close>.\<close>

definition window_mean :: "real option list \<Rightarrow> nat \<Rightarrow> nat \<Rightarrow> py_error + real" where
  "window_mean values period i =
     (case py_sum 0 (slice i (i + period) values) of
        Inl e \<Rightarrow> Inl e
      | Inr s \<Rightarrow> if period = 0 then Inl ZeroDivisionError else Inr (s / real period))"

text \<open>The nested function \<^verbatim>\<open>calculate_ma(values, period)\<close> (lines 149-152).\<close>

definition calculate_ma :: "real option list \<Rightarrow> nat \<Rightarrow> py_error + real list" where
  "calculate_ma values period =
     (if length values < period then Inr []
      else collect (map (window_mean values period) [0 ..< length values - period + 1]))"

text \<open>
  The loop of \<^verbatim>\<open>calculate_rsi\<close> (lines 166-173): \<^verbatim>\<open>for i in range(1, len(values))\<close> reads
  \<^verbatim>\<open>values[i-1]\<close> and \<^verbatim>\<open>values[i]\<close>, here the first two elements of the rest of the list,
  and appends to \<^verbatim>\<open>gains\<close> and \<^verbatim>\<open>losses\<close>. The subtraction raises TypeError when one
  of the two is not a number.
\<close>

fun rsi_loop :: "real option list \<Rightarrow> real list \<Rightarrow> real list \<Rightarrow> py_error + (real list \<times> real list)" where
  "rsi_loop (Some prev # Some cur # rest) gains losses =
     (let change = cur - prev in
      if change > 0 then rsi_loop (Some cur # rest) (gains @ [change]) (losses @ [0])
      else rsi_loop (Some cur # rest) (gains @ [0]) (losses @ [\<bar>change\<bar>]))"
| "rsi_loop (p # c # rest) gains losses = Inl TypeError"
| "rsi_loop vs gains losses = Inr (gains, losses)"

text \<open>The nested function \<^verbatim>\<open>calculate_rsi(values, period=14)\<close> (lines 159-186).\<close>

definition calculate_rsi :: "real option list \<Rightarrow> nat \<Rightarrow> py_error + real" where
  "calculate_rsi values period =
     (if length values < period + 1 then Inr 50
      else case rsi_loop values [] [] of
        Inl e \<Rightarrow> Inl e
      | Inr (gains, losses) \<Rightarrow>
          if length gains < period then Inr 50
          else if period = 0 then Inl ZeroDivisionError
          else
            let avg_gain = sum_list (last_n period gains) / real period;
                avg_loss = sum_list (last_n period losses) / real period
            in if avg_loss = 0 then (if avg_gain > 0 then Inr 100 else Inr 50)
               else let rs = avg_gain / avg_loss in Inr (100 - 100 / (1 + rs)))"

text \<open>
  \<^verbatim>\<open>calculate_technical_indicators\<close> returns one of two dicts: the empty dict \<^verbatim>\<open>{}\<close>
  (line 142) or a dict with the five keys \<^verbatim>\<open>ma5, ma10, ma20, rsi, current_nav\<close>
  (lines 190-196), where a moving average is a number or Python's \<^verbatim>\<open>None\<close>.
\<close>

record snapshot =
  ma5 :: "real option"
  ma10 :: "real option"
  ma20 :: "real option"
  rsi :: real
  current_nav :: real

datatype indicators = Empty_dict | Indicators snapshot

text \<open>\<^verbatim>\<open>xs[-1] if xs else None\<close>.\<close>

definition last_or_none :: "'a list \<Rightarrow> 'a option" where
  "last_or_none xs = (if xs = [] then None else Some (last xs))"

text \<open>
  \<^verbatim>\<open>calculate_technical_indicators(history_data)\<close> (lines 139-196). With five or more
  values every value lies in a window of \<^verbatim>\<open>calculate_ma(nav_values, 5)\<close>, so a value that
  is not a number has raised before \<^verbatim>\<open>nav_values[-1]\<close> is read (lemma
  \<open>last_nav_reached\<close> below); the branch \<open>None\<close> of the last \<open>case\<close> is never taken.
\<close>

definition calculate_technical_indicators :: "hist_item list \<Rightarrow> py_error + indicators" where
  "calculate_technical_indicators history_data =
     (if length history_data < 5 then Inr Empty_dict
      else
        let nav_values = rev (map nav history_data) in
        case calculate_ma nav_values 5 of Inl e \<Rightarrow> Inl e | Inr m5 \<Rightarrow>
       (case calculate_ma nav_values 10 of Inl e \<Rightarrow> Inl e | Inr m10 \<Rightarrow>
       (case calculate_ma nav_values 20 of Inl e \<Rightarrow> Inl e | Inr m20 \<Rightarrow>
       (case calculate_rsi nav_values 14 of Inl e \<Rightarrow> Inl e | Inr r \<Rightarrow>
       (case last nav_values of None \<Rightarrow> Inl TypeError | Some cur \<Rightarrow>
          Inr (Indicators \<lparr>ma5 = last_or_none m5, ma10 = last_or_none m10,
                           ma20 = last_or_none m20, rsi = r, current_nav = cur\<rparr>))))))"

text \<open>Reading the dict: \<^verbatim>\<open>indicators['rsi']\<close> as an option (\<open>None\<close>: the key is missing),
  and the four reads of \<^verbatim>\<open>get_trading_advice\<close> and \<^verbatim>\<open>_calculate_confidence\<close>:
  \<^verbatim>\<open>.get('current_nav', 0)\<close>, \<^verbatim>\<open>.get('ma5')\<close>, \<^verbatim>\<open>.get('ma10')\<close>, \<^verbatim>\<open>.get('rsi', 50)\<close>.\<close>

definition rsi_entry :: "indicators \<Rightarrow> real option" where
  "rsi_entry ind = (case ind of Empty_dict \<Rightarrow> None | Indicators s \<Rightarrow> Some (rsi s))"

definition current_nav_entry :: "indicators \<Rightarrow> real option" where
  "current_nav_entry ind = (case ind of Empty_dict \<Rightarrow> None | Indicators s \<Rightarrow> Some (current_nav s))"

definition get_current_nav :: "indicators \<Rightarrow> real" where
  "get_current_nav ind = (case ind of Empty_dict \<Rightarrow> 0 | Indicators s \<Rightarrow> current_nav s)"

definition get_ma5 :: "indicators \<Rightarrow> real option" where
  "get_ma5 ind = (case ind of Empty_dict \<Rightarrow> None | Indicators s \<Rightarrow> ma5 s)"

definition get_ma10 :: "indicators \<Rightarrow> real option" where
  "get_ma10 ind = (case ind of Empty_dict \<Rightarrow> None | Indicators s \<Rightarrow> ma10 s)"

definition get_ma20 :: "indicators \<Rightarrow> real option" where
  "get_ma20 ind = (case ind of Empty_dict \<Rightarrow> None | Indicators s \<Rightarrow> ma20 s)"

definition get_rsi :: "indicators \<Rightarrow> real" where
  "get_rsi ind = (case ind of Empty_dict \<Rightarrow> 50 | Indicators s \<Rightarrow> rsi s)"

section \<open>fund\_quant\_system\_final.py: trading advice\<close>

text \<open>
  The dict that \<^verbatim>\<open>get_fund_realtime_info\<close> returns (lines 57-66 and 73-82). The key
  \<^verbatim>\<open>'nav'\<close> is the field \<open>unit_nav\<close>; the key \<^verbatim>\<open>'last_update'\<close> holds the wall clock
  time of the call, which nothing reads, and is left out.
\<close>

record realtime_info =
  fund_code :: string
  name :: string
  nav_date :: string
  unit_nav :: real
  estimate_value :: real
  estimate_growth :: real
  estimate_time :: string

text \<open>
  The advice is one of the Python strings \<^verbatim>\<open>"buy"\<close>, \<^verbatim>\<open>"sell"\<close>, \<^verbatim>\<open>"hold"\<close>. The reason
  is a Chinese sentence built from fixed pieces; each piece is a constructor, and
  \<^verbatim>\<open>reason += ...\<close> appends one.
\<close>

datatype reason_part =
    Trend_unclear
  | Uptrend
  | Downtrend
  | But_overbought_wait
  | Overbought_pullback_risk
  | But_oversold_wait
  | Oversold_rebound_chance

text \<open>Lines 200-215 of \<^verbatim>\<open>get_trading_advice\<close>: the start value \<^verbatim>\<open>"hold"\<close> and the
  moving average strategy. \<^verbatim>\<open>current_nav > ma5 > ma10\<close> is Python's chained comparison.\<close>

definition trend_advice :: "indicators \<Rightarrow> string \<times> reason_part list" where
  "trend_advice ind =
     (let cur = get_current_nav ind in
      case (get_ma5 ind, get_ma10 ind) of
        (Some m5, Some m10) \<Rightarrow>
          if cur > m5 \<and> m5 > m10 then (''buy'', [Uptrend])
          else if cur < m5 \<and> m5 < m10 then (''sell'', [Downtrend])
          else (''hold'', [Trend_unclear])
      | _ \<Rightarrow> (''hold'', [Trend_unclear]))"

text \<open>Lines 217-231 of \<^verbatim>\<open>get_trading_advice\<close>: the RSI signal, applied to the advice
  and reason that the lines before it left.\<close>

definition rsi_override :: "real \<Rightarrow> string \<times> reason_part list \<Rightarrow> string \<times> reason_part list" where
  "rsi_override r ar =
     (case ar of (a, rs) \<Rightarrow>
        if r > 70 then
          (if a = ''buy'' then (''hold'', rs @ [But_overbought_wait])
           else if a = ''hold'' then (''sell'', [Overbought_pullback_risk])
           else (a, rs))
        else if r < 30 then
          (if a = ''sell'' then (''hold'', rs @ [But_oversold_wait])
           else if a = ''hold'' then (''buy'', [Oversold_rebound_chance])
           else (a, rs))
        else (a, rs))"

text \<open>\<^verbatim>\<open>_calculate_confidence(realtime_info, indicators)\<close> (lines 239-253).\<close>

definition calculate_confidence :: "realtime_info \<Rightarrow> indicators \<Rightarrow> real" where
  "calculate_confidence info ind =
     (let confidence = 0.5;
          confidence = (if \<bar>estimate_growth info\<bar> > 2 then confidence + 0.2 else confidence);
          r = get_rsi ind;
          confidence = (if r < 20 \<or> r > 80 then confidence + 0.15 else confidence)
      in min confidence 0.95)"

record advice_dict =
  advice :: string
  reason :: "reason_part list"
  confidence :: real

text \<open>\<^verbatim>\<open>get_trading_advice(fund_code, realtime_info, indicators)\<close> (lines 198-237).\<close>

definition get_trading_advice :: "string \<Rightarrow> realtime_info \<Rightarrow> indicators \<Rightarrow> advice_dict" where
  "get_trading_advice code info ind =
     (case rsi_override (get_rsi ind) (trend_advice ind) of
        (a, rs) \<Rightarrow> \<lparr>advice = a, reason = rs, confidence = calculate_confidence info ind\<rparr>)"

section \<open>fund\_quant\_system\_final.py: analysis of one fund and of a batch\<close>

text \<open>
  The two remote requests are outside the embedding; what they deliver is a parameter.
  For a fund code, \<open>realtime_response\<close> is the dict that the \<^verbatim>\<open>try\<close> block of
  \<^verbatim>\<open>get_fund_realtime_info\<close> returns (lines 57-66: status 200, a parsed dict with the key
  \<^verbatim>\<open>fundcode\<close>, the three \<^verbatim>\<open>float\<close> conversions done), and \<open>None\<close> in every other case
  (exception, other status, text that does not parse). \<open>history_response\<close> is the list
  that the \<^verbatim>\<open>try\<close> block of \<^verbatim>\<open>get_fund_history_nav\<close> returns on line 129, and \<open>None\<close>
  when the request or the parsing failed.
\<close>

record network =
  realtime_response :: "string \<Rightarrow> realtime_info option"
  history_response :: "string \<Rightarrow> hist_item list option"

text \<open>\<^verbatim>\<open>get_fund_realtime_info(fund_code)\<close> (lines 48-82): every failure is logged and
  ends in the default dict of lines 73-82, whose name is empty.\<close>

definition get_fund_realtime_info :: "network \<Rightarrow> string \<Rightarrow> realtime_info" where
  "get_fund_realtime_info net code =
     (case realtime_response net code of
        Some info \<Rightarrow> info
      | None \<Rightarrow> \<lparr>fund_code = code, name = [], nav_date = [], unit_nav = 0,
                  estimate_value = 0, estimate_growth = 0, estimate_time = []\<rparr>)"

text \<open>\<^verbatim>\<open>get_fund_history_nav(fund_code, days)\<close> (lines 84-137): every failure is logged
  and ends in \<^verbatim>\<open>return []\<close> (line 137).\<close>

definition get_fund_history_nav :: "network \<Rightarrow> string \<Rightarrow> hist_item list" where
  "get_fund_history_nav net code =
     (case history_response net code of Some history \<Rightarrow> history | None \<Rightarrow> [])"

datatype error_text = Fund_unavailable string | Exception_text py_error

record success_report =
  fund_info :: realtime_info
  history_data_count :: nat
  technical_indicators :: indicators
  trading_advice :: advice_dict

text \<open>The report of \<^verbatim>\<open>analyze_fund\<close>: \<^verbatim>\<open>'status': 'error'\<close> with the error text, or
  \<^verbatim>\<open>'status': 'success'\<close> with the four parts (\<^verbatim>\<open>analysis_time\<close> is left out).\<close>

datatype report = Error_report error_text | Success_report success_report

definition status :: "report \<Rightarrow> string" where
  "status r = (case r of Error_report e \<Rightarrow> ''error'' | Success_report s \<Rightarrow> ''success'')"

text \<open>\<^verbatim>\<open>analyze_fund(fund_code)\<close> (lines 255-297). The test \<^verbatim>\<open>not realtime_info['name']\<close>
  holds for the empty string. The only call of the \<^verbatim>\<open>try\<close> block that can raise is
  \<^verbatim>\<open>calculate_technical_indicators\<close>; the handler of lines 291-297 turns the exception
  into an error report.\<close>

definition analyze_fund :: "network \<Rightarrow> string \<Rightarrow> report" where
  "analyze_fund net code =
     (let info = get_fund_realtime_info net code in
      if name info = [] then Error_report (Fund_unavailable code)
      else
        let history_data = get_fund_history_nav net code in
        case calculate_technical_indicators history_data of
          Inl e \<Rightarrow> Error_report (Exception_text e)
        | Inr ind \<Rightarrow>
            Success_report \<lparr>fund_info = info, history_data_count = length history_data,
              technical_indicators = ind, trading_advice = get_trading_advice code info ind\<rparr>)"

text \<open>\<^verbatim>\<open>analyze_multiple_funds(fund_codes)\<close> (lines 299-306): the loop over the codes with
  the dict \<^verbatim>\<open>results\<close> as accumulator. The pause of half a second between two funds is
  not modelled.\<close>

fun analyze_loop :: "network \<Rightarrow> string list \<Rightarrow> (string \<rightharpoonup> report) \<Rightarrow> (string \<rightharpoonup> report)" where
  "analyze_loop net [] results = results"
| "analyze_loop net (code # codes) results =
     analyze_loop net codes (results(code \<mapsto> analyze_fund net code))"

definition analyze_multiple_funds :: "network \<Rightarrow> string list \<Rightarrow> (string \<rightharpoonup> report)" where
  "analyze_multiple_funds net fund_codes = analyze_loop net fund_codes Map.empty"

section \<open>fund\_quant\_system\_simple.py: the cache and the advice from growth alone\<close>

text \<open>
  A value of the dict parsed from the remote JSONP text. The remote side sends numbers
  as strings, which \<^verbatim>\<open>float\<close> converts: \<open>JNumeric_text r\<close> is a string that \<^verbatim>\<open>float\<close>
  reads as \<open>r\<close>, \<open>JText s\<close> any other string (\<^verbatim>\<open>float\<close> raises ValueError on it) and
  \<open>JNum r\<close> a number. A dict is a list of key and value pairs with \<open>map_of\<close> as lookup;
  the empty dict is \<open>[]\<close>.
\<close>

datatype jval = JNum real | JNumeric_text real | JText string

type_synonym payload = "(string \<times> jval) list"

fun dict_set :: "string \<Rightarrow> jval \<Rightarrow> payload \<Rightarrow> payload" where
  "dict_set k v [] = [(k, v)]"
| "dict_set k v ((k', v') # d) = (if k' = k then (k, v) # d else (k', v') # dict_set k v d)"

definition py_float :: "jval \<Rightarrow> py_error + real" where
  "py_float v = (case v of JNum r \<Rightarrow> Inr r | JNumeric_text r \<Rightarrow> Inr r | JText s \<Rightarrow> Inl ValueError)"

text \<open>\<^verbatim>\<open>if k in data: data[k] = float(data[k])\<close> (lines 63-66).\<close>

definition convert_key :: "string \<Rightarrow> payload \<Rightarrow> py_error + payload" where
  "convert_key k data =
     (case map_of data k of
        None \<Rightarrow> Inr data
      | Some v \<Rightarrow> (case py_float v of Inl e \<Rightarrow> Inl e | Inr r \<Rightarrow> Inr (dict_set k (JNum r) data)))"

text \<open>
  What the remote side does when it is asked: \<^verbatim>\<open>session.get\<close> raises, or
  \<^verbatim>\<open>raise_for_status\<close> raises, or the text arrives and \<^verbatim>\<open>_parse_jsonp\<close> returns a dict
  (the empty dict when the text is not JSONP: \<^verbatim>\<open>_parse_jsonp\<close> catches its own exceptions).
\<close>

datatype http_outcome = Get_raises | Status_raises | Parsed payload

text \<open>The object state: the cache, its timeout, and as a ghost field the list of fund
  codes for which \<^verbatim>\<open>self.session.get\<close> was called, oldest first.\<close>

record system =
  fund_cache :: "string \<rightharpoonup> (payload \<times> real)"
  cache_timeout :: real
  session_gets :: "string list"

text \<open>The \<^verbatim>\<open>try\<close> block of \<^verbatim>\<open>get_fund_realtime_info\<close> (lines 56-70).\<close>

definition try_fetch :: "system \<Rightarrow> string \<Rightarrow> real \<Rightarrow> http_outcome \<Rightarrow> py_error + (payload \<times> system)" where
  "try_fetch st key current_time outcome =
     (case outcome of
        Get_raises \<Rightarrow> Inl RequestException
      | Status_raises \<Rightarrow> Inl RequestException
      | Parsed data \<Rightarrow>
          (case convert_key ''gszzl'' data of Inl e \<Rightarrow> Inl e | Inr d1 \<Rightarrow>
          (case convert_key ''dwjz'' d1 of Inl e \<Rightarrow> Inl e | Inr d2 \<Rightarrow>
             Inr (d2, st\<lparr>fund_cache := (fund_cache st)(key \<mapsto> (d2, current_time))\<rparr>))))"

text \<open>The key of line 46.\<close>

definition cache_key :: "string \<Rightarrow> string" where
  "cache_key code = ''realtime_'' @ code"

text \<open>The cache check of lines 50-53: the cached dict when the entry is fresh.\<close>

definition cache_hit :: "system \<Rightarrow> string \<Rightarrow> real \<Rightarrow> payload option" where
  "cache_hit st key current_time =
     (case fund_cache st key of
        None \<Rightarrow> None
      | Some (cached_data, timestamp) \<Rightarrow>
          if current_time - timestamp < cache_timeout st then Some cached_data else None)"

text \<open>The ghost record of one call of \<^verbatim>\<open>self.session.get\<close> (line 57).\<close>

definition logged :: "system \<Rightarrow> string \<Rightarrow> system" where
  "logged st code = st\<lparr>session_gets := session_gets st @ [code]\<rparr>"

text \<open>
  \<^verbatim>\<open>get_fund_realtime_info(fund_code)\<close> of the simple file (lines 44-74), with the value of
  \<^verbatim>\<open>time.time()\<close> and the remote outcome as parameters. The handler of lines 72-74
  catches every exception of the \<^verbatim>\<open>try\<close> block and returns the empty dict.
\<close>

definition get_fund_realtime_info_simple ::
    "system \<Rightarrow> string \<Rightarrow> real \<Rightarrow> http_outcome \<Rightarrow> (py_error + payload) \<times> system" where
  "get_fund_realtime_info_simple st code current_time outcome =
     (let key = cache_key code in
      case cache_hit st key current_time of
        Some cached_data \<Rightarrow> (Inr cached_data, st)
      | None \<Rightarrow>
          (let st1 = logged st code in
           case try_fetch st1 key current_time outcome of
             Inl e \<Rightarrow> (Inr [], st1)
           | Inr (data, st2) \<Rightarrow> (Inr data, st2)))"

datatype reason_simple =
    Take_profit real
  | Dip_buy real
  | Small_rise_hold real
  | Small_fall_watch real
  | Stable real

text \<open>The chain of lines 90-105 of the simple file.\<close>

definition growth_advice :: "real \<Rightarrow> string \<times> reason_simple" where
  "growth_advice g =
     (if g > 1.0 then (''sell'', Take_profit g)
      else if g < - 1.0 then (''buy'', Dip_buy g)
      else if g > 0.5 then (''hold'', Small_rise_hold g)
      else if g < - 0.5 then (''watch'', Small_fall_watch g)
      else (''hold'', Stable g))"

text \<open>\<^verbatim>\<open>realtime_data.get('gszzl', 0)\<close> as a number; comparing a string with a float
  raises TypeError.\<close>

definition growth_of :: "payload \<Rightarrow> py_error + real" where
  "growth_of data =
     (case map_of data ''gszzl'' of
        None \<Rightarrow> Inr 0
      | Some (JNum r) \<Rightarrow> Inr r
      | Some v \<Rightarrow> Inl TypeError)"

definition get_or :: "payload \<Rightarrow> string \<Rightarrow> jval \<Rightarrow> jval" where
  "get_or data k d = (case map_of data k of None \<Rightarrow> d | Some v \<Rightarrow> v)"

record advice_simple =
  advice_s :: string
  reason_s :: reason_simple
  growth_rate :: real
  fund_name :: jval
  current_value :: jval
  last_nav :: jval
  update_time :: jval

datatype analysis = Error_dict | Advice_dict advice_simple

text \<open>\<^verbatim>\<open>calculate_technical_indicators(fund_code)\<close> of the simple file (lines 82-115).\<close>

definition calculate_technical_indicators_simple ::
    "system \<Rightarrow> string \<Rightarrow> real \<Rightarrow> http_outcome \<Rightarrow> (py_error + analysis) \<times> system" where
  "calculate_technical_indicators_simple st code current_time outcome =
     (case get_fund_realtime_info_simple st code current_time outcome of
        (Inl e, st') \<Rightarrow> (Inl e, st')
      | (Inr realtime_data, st') \<Rightarrow>
          if realtime_data = [] then (Inr Error_dict, st')
          else
            (case growth_of realtime_data of
               Inl e \<Rightarrow> (Inl e, st')
             | Inr g \<Rightarrow>
                 (case growth_advice g of (a, r) \<Rightarrow>
                    (Inr (Advice_dict \<lparr>advice_s = a, reason_s = r, growth_rate = g,
                       fund_name = get_or realtime_data ''name'' (JText code),
                       current_value = get_or realtime_data ''gsz'' (JText ''N/A''),
                       last_nav = get_or realtime_data ''dwjz'' (JText ''N/A''),
                       update_time = get_or realtime_data ''gztime'' (JText ''N/A'')\<rparr>), st'))))"

section \<open>The momentum in the words of the specification\<close>

text \<open>
  The specification describes the momentum over the consecutive deltas of the nav
  series: a positive delta fills the gains, the absolute value of a negative delta fills
  the losses, and the other bucket gets a zero at that step. These three definitions
  follow that wording; they are compared with \<open>calculate_rsi\<close> below.
\<close>

fun deltas :: "real list \<Rightarrow> real list" where
  "deltas (a # b # rest) = (b - a) # deltas (b # rest)"
| "deltas vs = []"

definition spec_gains :: "real list \<Rightarrow> real list" where
  "spec_gains vs = map (\<lambda>d. if d > 0 then d else 0) (deltas vs)"

definition spec_losses :: "real list \<Rightarrow> real list" where
  "spec_losses vs = map (\<lambda>d. if d < 0 then \<bar>d\<bar> else 0) (deltas vs)"

section \<open>Concrete inputs\<close>

text \<open>
  The nav series 1.00, 1.01, 1.02, 1.03, 1.05 as \<^verbatim>\<open>get_fund_history_nav\<close> delivers it:
  newest first (line 117 sorts by date, descending), and the realtime dict of a fund whose
  estimated growth of the day is 0.3 percent.
\<close>

definition scenario_history :: "hist_item list" where
  "scenario_history =
     [\<lparr>date = ''2024-01-05'', nav = Some 1.05\<rparr>, \<lparr>date = ''2024-01-04'', nav = Some 1.03\<rparr>,
      \<lparr>date = ''2024-01-03'', nav = Some 1.02\<rparr>, \<lparr>date = ''2024-01-02'', nav = Some 1.01\<rparr>,
      \<lparr>date = ''2024-01-01'', nav = Some 1.00\<rparr>]"

definition demo_info :: "string \<Rightarrow> realtime_info" where
  "demo_info code = \<lparr>fund_code = code, name = ''demo'', nav_date = ''2024-01-05'',
     unit_nav = 1.05, estimate_value = 1.05, estimate_growth = 0.3, estimate_time = []\<rparr>"

definition scenario_snapshot :: indicators where
  "scenario_snapshot =
     Indicators \<lparr>ma5 = Some 1.022, ma10 = None, ma20 = None, rsi = 50, current_nav = 1.05\<rparr>"

text \<open>The same history with a nav that is not a number, a rising series of 15 values,
  and a series of 15 values that rises and falls.\<close>

definition broken_history :: "hist_item list" where
  "broken_history =
     [\<lparr>date = ''2024-01-05'', nav = Some 1.05\<rparr>, \<lparr>date = ''2024-01-04'', nav = None\<rparr>,
      \<lparr>date = ''2024-01-03'', nav = Some 1.02\<rparr>, \<lparr>date = ''2024-01-02'', nav = Some 1.01\<rparr>,
      \<lparr>date = ''2024-01-01'', nav = Some 1.00\<rparr>]"

definition rising_series :: "real list" where
  "rising_series = [1, 2, 3, 4, 5, 6, 7, 8, 9, 10, 11, 12, 13, 14, 15]"

definition mixed_series :: "real list" where
  "mixed_series = [10, 11, 10, 11, 10, 11, 10, 11, 10, 11, 10, 11, 10, 11, 14]"

text \<open>A snapshot with both moving averages present.\<close>

definition trend_snapshot :: "real \<Rightarrow> real \<Rightarrow> real \<Rightarrow> real \<Rightarrow> indicators" where
  "trend_snapshot cur m5 m10 r =
     Indicators \<lparr>ma5 = Some m5, ma10 = Some m10, ma20 = None, rsi = r, current_nav = cur\<rparr>"

text \<open>Three networks: the realtime request of fund 000002 fails; every history request
  fails; the history of every fund holds a value that is not a number.\<close>

definition net_realtime_fails :: network where
  "net_realtime_fails =
     \<lparr>realtime_response = (\<lambda>c. if c = ''000002'' then None else Some (demo_info c)),
      history_response = (\<lambda>c. Some scenario_history)\<rparr>"

definition net_history_fails :: network where
  "net_history_fails =
     \<lparr>realtime_response = (\<lambda>c. Some (demo_info c)), history_response = (\<lambda>c. None)\<rparr>"

definition net_broken_history :: network where
  "net_broken_history =
     \<lparr>realtime_response = (\<lambda>c. Some (demo_info c)),
      history_response = (\<lambda>c. Some broken_history)\<rparr>"

text \<open>A fresh object of the simple file (\<^verbatim>\<open>__init__\<close>, lines 23-29), a remote dict before
  and after the conversion of lines 63-66, and the object after one successful request
  for fund 000001 at time 1000.\<close>

definition empty_system :: system where
  "empty_system = \<lparr>fund_cache = Map.empty, cache_timeout = 300, session_gets = []\<rparr>"

definition demo_payload :: "real \<Rightarrow> payload" where
  "demo_payload g =
     [(''fundcode'', JText ''000001''), (''name'', JText ''demo''), (''gszzl'', JNumeric_text g)]"

definition demo_converted :: "real \<Rightarrow> payload" where
  "demo_converted g =
     [(''fundcode'', JText ''000001''), (''name'', JText ''demo''), (''gszzl'', JNum g)]"

definition cached_system :: system where
  "cached_system =
     \<lparr>fund_cache = [cache_key ''000001'' \<mapsto> (demo_converted 0.3, 1000)],
      cache_timeout = 300, session_gets = [''000001'']\<rparr>"

section \<open>Properties of the indicators\<close>

subsection \<open>Non-numeric values raise in the first moving average\<close>

lemma py_sum_None: "None \<in> set vs \<Longrightarrow> py_sum acc vs = Inl TypeError"
  by (induction acc vs rule: py_sum.induct) auto

lemma collect_Inr: "collect rs = Inr xs \<Longrightarrow> Inl e \<notin> set rs"
proof (induction rs arbitrary: xs)
  case Nil
  then show ?case by simp
next
  case (Cons r rs)
  then show ?case by (cases r) (auto split: sum.splits)
qed

lemma None_in_window:
  assumes "None \<in> set vs" and "0 < p" and "p \<le> length vs"
  shows "\<exists>i < length vs - p + 1. None \<in> set (slice i (i + p) vs)"
proof -
  from assms(1) obtain k where k: "k < length vs" "vs ! k = None"
    by (auto simp: in_set_conv_nth)
  define i where "i = min k (length vs - p)"
  have i: "i \<le> k" "k - i < p" "i < length vs - p + 1"
    using k(1) assms(2,3) by (auto simp: i_def min_def)
  have "slice i (i + p) vs ! (k - i) = vs ! k"
    using i k(1) by (simp add: slice_def)
  moreover have "k - i < length (slice i (i + p) vs)"
    using i k(1) by (simp add: slice_def)
  ultimately have "None \<in> set (slice i (i + p) vs)"
    using k(2) by (metis nth_mem)
  with i(3) show ?thesis by blast
qed

lemma calculate_ma_numeric:
  assumes "calculate_ma vs p = Inr m" and "0 < p" and "p \<le> length vs"
  shows "None \<notin> set vs"
proof
  assume "None \<in> set vs"
  from None_in_window[OF this assms(2,3)] obtain i
    where i: "i < length vs - p + 1" "None \<in> set (slice i (i + p) vs)" by blast
  from i(2) have "window_mean vs p i = Inl TypeError"
    by (simp add: window_mean_def py_sum_None)
  moreover from i(1) have "i \<in> set [0 ..< length vs - p + 1]"
    by auto
  then have "window_mean vs p i \<in> window_mean vs p ` set [0 ..< length vs - p + 1]"
    by (rule imageI)
  ultimately have "Inl TypeError \<in> set (map (window_mean vs p) [0 ..< length vs - p + 1])"
    by simp
  moreover from assms have "collect (map (window_mean vs p) [0 ..< length vs - p + 1]) = Inr m"
    by (simp add: calculate_ma_def)
  ultimately show False using collect_Inr by blast
qed

text \<open>So the last value is a number once the first moving average has returned: the
  branch \<open>None\<close> at the end of \<open>calculate_technical_indicators\<close> is not reached.\<close>

lemma last_nav_reached:
  assumes "calculate_ma (rev (map nav history_data)) 5 = Inr m" and "5 \<le> length history_data"
  shows "last (rev (map nav history_data)) \<noteq> None"
proof -
  from assms(2) have ne: "rev (map nav history_data) \<noteq> []"
    by auto
  from calculate_ma_numeric[OF assms(1)] assms(2) have "None \<notin> set (rev (map nav history_data))"
    by simp
  with last_in_set[OF ne] show ?thesis
    by metis
qed

subsection \<open>On numbers the moving averages are the window means\<close>

lemma py_sum_numeric: "py_sum acc (map Some xs) = Inr (acc + sum_list xs)"
  by (induction xs arbitrary: acc) (simp_all add: add.assoc)

lemma slice_map: "slice i j (map f xs) = map f (slice i j xs)"
  by (simp add: slice_def take_map drop_map)

lemma window_mean_numeric:
  "0 < p \<Longrightarrow> window_mean (map Some xs) p i = Inr (sum_list (slice i (i + p) xs) / real p)"
  by (simp add: window_mean_def slice_map py_sum_numeric)

lemma collect_returns: "collect (map (\<lambda>i. Inr (f i)) js) = Inr (map f js)"
  by (induction js) simp_all

lemma calculate_ma_returns:
  assumes "0 < p"
  shows "calculate_ma (map Some xs) p =
     Inr (if length xs < p then []
          else map (\<lambda>i. sum_list (slice i (i + p) xs) / real p) [0 ..< length xs - p + 1])"
proof -
  have eq: "window_mean (map Some xs) p = (\<lambda>i. Inr (sum_list (slice i (i + p) xs) / real p))"
    using assms by (auto simp: window_mean_numeric)
  show ?thesis
    unfolding calculate_ma_def eq collect_returns by simp
qed

subsection \<open>Short histories\<close>

text \<open>
  Claim C1, as the code has it. For every history with fewer than 5 points
  \<^verbatim>\<open>calculate_technical_indicators\<close> returns the empty dict and raises nothing, whatever
  the points hold. The three moving averages are absent from that dict, and so are the
  momentum and the current nav: the dict has no key \<^verbatim>\<open>rsi\<close>. The value 50 is the default
  with which \<^verbatim>\<open>get_trading_advice\<close> and \<^verbatim>\<open>_calculate_confidence\<close> read the missing key
  (and 0 the default for the missing current nav).
\<close>

theorem short_history_empty_snapshot:
  assumes "length history_data < 5"
  shows "calculate_technical_indicators history_data = Inr Empty_dict
    \<and> get_ma5 Empty_dict = None \<and> get_ma10 Empty_dict = None \<and> get_ma20 Empty_dict = None
    \<and> rsi_entry Empty_dict = None \<and> current_nav_entry Empty_dict = None
    \<and> get_rsi Empty_dict = 50 \<and> get_current_nav Empty_dict = 0"
  using assms
  by (simp add: calculate_technical_indicators_def get_ma5_def get_ma10_def get_ma20_def
      rsi_entry_def current_nav_entry_def get_rsi_def get_current_nav_def)

text \<open>The theorem at a history of four points and at one point that is not a number.\<close>

theorem short_history_empty_snapshot_witness:
  "calculate_technical_indicators (take 4 scenario_history) = Inr Empty_dict
   \<and> calculate_technical_indicators [\<lparr>date = ''2024-01-01'', nav = None\<rparr>] = Inr Empty_dict
   \<and> get_rsi Empty_dict = 50"
proof -
  have four: "length (take 4 scenario_history) < 5"
    by (simp add: scenario_history_def)
  have one: "length [\<lparr>date = ''2024-01-01'', nav = None\<rparr>] < 5"
    by simp
  from short_history_empty_snapshot[OF four] short_history_empty_snapshot[OF one]
  show ?thesis by simp
qed

text \<open>
  Claim C1 as stated asks for a snapshot whose momentum is 50. For the empty history the
  returned dict is empty: reading its momentum finds no entry.
\<close>

theorem short_history_momentum_counterexample:
  "calculate_technical_indicators [] = Inr Empty_dict \<and> rsi_entry Empty_dict \<noteq> Some 50"
  by (simp add: calculate_technical_indicators_def rsi_entry_def)

subsection \<open>The five point scenario\<close>

lemma scenario_indicators:
  "calculate_technical_indicators scenario_history = Inr scenario_snapshot"
  by (simp add: calculate_technical_indicators_def scenario_history_def calculate_ma_def
      window_mean_def slice_def calculate_rsi_def last_or_none_def scenario_snapshot_def)

text \<open>
  Claim C2, as the code has it. For the nav series 1.00, 1.01, 1.02, 1.03, 1.05 and a
  same-day growth of 0.3 the short moving average is present and equals 1.022 and the
  current nav is 1.05, but the mid moving average is absent (it needs 10 points), so the
  comparison of line 209 is not entered: the base advice stays \<^verbatim>\<open>"hold"\<close> with the reason
  "trend unclear". The momentum is 50 (fewer than 15 points), no override applies, and
  the final advice is \<^verbatim>\<open>"hold"\<close> with confidence 0.5.
\<close>

theorem five_point_scenario:
  "calculate_technical_indicators scenario_history = Inr scenario_snapshot
   \<and> get_ma5 scenario_snapshot = Some 1.022
   \<and> get_ma10 scenario_snapshot = None
   \<and> get_current_nav scenario_snapshot = 1.05
   \<and> get_rsi scenario_snapshot = 50
   \<and> trend_advice scenario_snapshot = (''hold'', [Trend_unclear])
   \<and> get_trading_advice ''000001'' (demo_info ''000001'') scenario_snapshot
       = \<lparr>advice = ''hold'', reason = [Trend_unclear], confidence = 0.5\<rparr>"
  by (simp add: scenario_indicators scenario_snapshot_def get_ma5_def get_ma10_def get_rsi_def
      get_current_nav_def trend_advice_def get_trading_advice_def rsi_override_def
      calculate_confidence_def demo_info_def)

text \<open>
  Claim C2 as stated expects the base advice \<^verbatim>\<open>"buy"\<close> and, the momentum being at most 70,
  the final advice \<^verbatim>\<open>"buy"\<close>. In the scenario the current nav is above the short moving
  average and the momentum is below 70, yet neither the base advice nor the final advice
  is \<^verbatim>\<open>"buy"\<close>.
\<close>

theorem five_point_scenario_counterexample:
  "calculate_technical_indicators scenario_history = Inr scenario_snapshot
   \<and> get_ma5 scenario_snapshot = Some 1.022
   \<and> get_current_nav scenario_snapshot > 1.022
   \<and> get_rsi scenario_snapshot \<le> 70
   \<and> fst (trend_advice scenario_snapshot) \<noteq> ''buy''
   \<and> advice (get_trading_advice ''000001'' (demo_info ''000001'') scenario_snapshot) \<noteq> ''buy''"
  by (simp add: scenario_indicators scenario_snapshot_def get_ma5_def get_ma10_def get_rsi_def
      get_current_nav_def trend_advice_def get_trading_advice_def rsi_override_def)

subsection \<open>The momentum\<close>

lemma length_deltas: "length (deltas vs) = length vs - 1"
  by (induction vs rule: deltas.induct) auto

lemma rsi_loop_numeric:
  "rsi_loop (map Some vs) gains losses = Inr (gains @ spec_gains vs, losses @ spec_losses vs)"
proof (induction vs arbitrary: gains losses rule: deltas.induct)
  case (1 a b rest)
  show ?case
    using 1[of "gains @ [if b - a > 0 then b - a else 0]"
               "losses @ [if b - a > 0 then 0 else \<bar>b - a\<bar>]"]
    by (auto simp: spec_gains_def spec_losses_def Let_def)
qed (simp_all add: spec_gains_def spec_losses_def)

text \<open>
  Claim C3. On a series of numbers \<^verbatim>\<open>calculate_rsi\<close> with its period 14 raises nothing
  and returns: 50 for fewer than 15 points; otherwise, with the means of the last 14
  gains and of the last 14 losses, 100 or 50 when the mean loss is zero (100 when the
  mean gain is positive) and 100 - 100 / (1 + mean gain / mean loss) when it is not.
\<close>

theorem calculate_rsi_formula:
  "calculate_rsi (map Some vs) 14 =
     Inr (if length vs < 15 then 50
          else
            let avg_gain = sum_list (last_n 14 (spec_gains vs)) / 14;
                avg_loss = sum_list (last_n 14 (spec_losses vs)) / 14
            in if avg_loss = 0 then (if avg_gain > 0 then 100 else 50)
               else 100 - 100 / (1 + avg_gain / avg_loss))"
proof (cases "length vs < 15")
  case True
  then show ?thesis by (simp add: calculate_rsi_def)
next
  case False
  then have "\<not> length (spec_gains vs) < 14"
    by (simp add: spec_gains_def length_deltas)
  with False show ?thesis
    by (simp add: calculate_rsi_def rsi_loop_numeric Let_def)
qed

text \<open>The theorem at a rising series (no loss: 100), at a series of 15 points whose
  gains sum to 10 and whose losses sum to 6 (62.5), and at a series of 5 points (50).\<close>

theorem calculate_rsi_formula_witness:
  "calculate_rsi (map Some rising_series) 14 = Inr 100
   \<and> calculate_rsi (map Some mixed_series) 14 = Inr 62.5
   \<and> calculate_rsi (map Some [1.00, 1.01, 1.02, 1.03, 1.05]) 14 = Inr 50"
proof -
  have a: "calculate_rsi (map Some rising_series) 14 = Inr 100"
    unfolding calculate_rsi_formula
    by (simp add: rising_series_def spec_gains_def spec_losses_def last_n_def)
  have b: "calculate_rsi (map Some mixed_series) 14 = Inr 62.5"
    unfolding calculate_rsi_formula
    by (simp add: mixed_series_def spec_gains_def spec_losses_def last_n_def)
  have c: "calculate_rsi (map Some [1.00, 1.01, 1.02, 1.03, 1.05]) 14 = Inr 50"
    unfolding calculate_rsi_formula by simp
  from a b c show ?thesis by simp
qed

subsection \<open>A history of numbers never raises\<close>

lemma calculate_rsi_returns: "\<exists>v. calculate_rsi (map Some vs) 14 = Inr v"
  by (simp add: calculate_rsi_def rsi_loop_numeric Let_def)

lemma numeric_history_returns:
  assumes "map nav history_data = map Some xs"
  shows "\<exists>ind. calculate_technical_indicators history_data = Inr ind"
proof -
  have r: "rev (map nav history_data) = map Some (rev xs)"
    using assms by (simp add: rev_map)
  from calculate_rsi_returns obtain v where v: "calculate_rsi (map Some (rev xs)) 14 = Inr v"
    by blast
  show ?thesis
  proof (cases "length history_data < 5")
    case True
    then show ?thesis by (simp add: calculate_technical_indicators_def)
  next
    case False
    from assms have "length xs = length history_data"
      by (metis length_map)
    with False have "rev xs \<noteq> []" by auto
    then have "last (map Some (rev xs)) = Some (last (rev xs))"
      by (simp add: last_map)
    with False v show ?thesis
      by (simp add: calculate_technical_indicators_def r calculate_ma_returns)
  qed
qed

section \<open>Properties of the trading advice\<close>

lemma trend_advice_range: "fst (trend_advice ind) \<in> {''buy'', ''sell'', ''hold''}"
  by (simp add: trend_advice_def Let_def split: option.splits)

lemma advice_after_override:
  "advice (get_trading_advice c info ind) = fst (rsi_override (get_rsi ind) (trend_advice ind))"
  by (simp add: get_trading_advice_def split: prod.splits)

lemma rsi_override_range:
  "a \<in> {''buy'', ''sell'', ''hold''} \<Longrightarrow> fst (rsi_override r (a, rs)) \<in> {''buy'', ''sell'', ''hold''}"
  by (auto simp: rsi_override_def)

lemma advice_range: "advice (get_trading_advice c info ind) \<in> {''buy'', ''sell'', ''hold''}"
proof -
  obtain a rs where ar: "trend_advice ind = (a, rs)"
    by (cases "trend_advice ind")
  with trend_advice_range[of ind] have "a \<in> {''buy'', ''sell'', ''hold''}"
    by simp
  from rsi_override_range[OF this, of "get_rsi ind" rs] ar show ?thesis
    by (simp add: advice_after_override)
qed

text \<open>With fewer than 10 points there is no mid moving average and the momentum is 50,
  so the advice is \<^verbatim>\<open>"hold"\<close> whatever the values are.\<close>

lemma short_history_holds:
  assumes "length history_data < 10"
    and "calculate_technical_indicators history_data = Inr ind"
  shows "get_ma10 ind = None \<and> get_rsi ind = 50
    \<and> get_trading_advice c info ind
        = \<lparr>advice = ''hold'', reason = [Trend_unclear], confidence = calculate_confidence info ind\<rparr>"
proof (cases "length history_data < 5")
  case True
  with assms(2) have "ind = Empty_dict"
    by (simp add: calculate_technical_indicators_def)
  then show ?thesis
    by (simp add: get_ma10_def get_rsi_def get_trading_advice_def trend_advice_def
        rsi_override_def get_ma5_def)
next
  case False
  with assms have "\<exists>s. ind = Indicators s \<and> ma10 s = None \<and> rsi s = 50"
    by (auto simp: calculate_technical_indicators_def calculate_ma_def calculate_rsi_def
        last_or_none_def Let_def split: sum.splits option.splits if_splits)
  then show ?thesis
    by (auto simp: get_ma10_def get_rsi_def get_trading_advice_def trend_advice_def
        rsi_override_def get_ma5_def Let_def split: option.splits)
qed

lemma trend_snapshot_reads:
  "get_rsi (trend_snapshot cur m5 m10 r) = r"
  "cur > m5 \<and> m5 > m10 \<Longrightarrow> fst (trend_advice (trend_snapshot cur m5 m10 r)) = ''buy''"
  "cur < m5 \<and> m5 < m10 \<Longrightarrow> fst (trend_advice (trend_snapshot cur m5 m10 r)) = ''sell''"
  "cur = m5 \<Longrightarrow> fst (trend_advice (trend_snapshot cur m5 m10 r)) = ''hold''"
  by (simp_all add: trend_snapshot_def get_rsi_def trend_advice_def get_ma5_def get_ma10_def
      get_current_nav_def)

text \<open>
  Claim C4. Whatever base advice lines 200-215 leave (the base signal of the trend
  path), the final advice of \<^verbatim>\<open>get_trading_advice\<close> is: for a momentum above 70,
  \<^verbatim>\<open>"hold"\<close> after a base \<^verbatim>\<open>"buy"\<close>, \<^verbatim>\<open>"sell"\<close> after a base \<^verbatim>\<open>"hold"\<close>, and \<^verbatim>\<open>"sell"\<close> after a
  base \<^verbatim>\<open>"sell"\<close>; for a momentum below 30, \<^verbatim>\<open>"hold"\<close> after a base \<^verbatim>\<open>"sell"\<close>, \<^verbatim>\<open>"buy"\<close> after a
  base \<^verbatim>\<open>"hold"\<close>, and \<^verbatim>\<open>"buy"\<close> after a base \<^verbatim>\<open>"buy"\<close>.
\<close>

theorem momentum_override:
  "(get_rsi ind > 70 \<and> fst (trend_advice ind) = ''buy''
      \<longrightarrow> advice (get_trading_advice c info ind) = ''hold'')
 \<and> (get_rsi ind > 70 \<and> fst (trend_advice ind) = ''hold''
      \<longrightarrow> advice (get_trading_advice c info ind) = ''sell'')
 \<and> (get_rsi ind > 70 \<and> fst (trend_advice ind) = ''sell''
      \<longrightarrow> advice (get_trading_advice c info ind) = ''sell'')
 \<and> (get_rsi ind < 30 \<and> fst (trend_advice ind) = ''sell''
      \<longrightarrow> advice (get_trading_advice c info ind) = ''hold'')
 \<and> (get_rsi ind < 30 \<and> fst (trend_advice ind) = ''hold''
      \<longrightarrow> advice (get_trading_advice c info ind) = ''buy'')
 \<and> (get_rsi ind < 30 \<and> fst (trend_advice ind) = ''buy''
      \<longrightarrow> advice (get_trading_advice c info ind) = ''buy'')"
  by (cases "trend_advice ind") (simp add: advice_after_override rsi_override_def)

text \<open>The six cases at snapshots with an uptrend (3 > 2 > 1), a downtrend (1 < 2 < 3)
  and no trend, with the momentum at 80 and at 20.\<close>

theorem momentum_override_witness:
  "advice (get_trading_advice ''000001'' (demo_info ''000001'') (trend_snapshot 3 2 1 80)) = ''hold''
 \<and> advice (get_trading_advice ''000001'' (demo_info ''000001'') (trend_snapshot 2 2 2 80)) = ''sell''
 \<and> advice (get_trading_advice ''000001'' (demo_info ''000001'') (trend_snapshot 1 2 3 80)) = ''sell''
 \<and> advice (get_trading_advice ''000001'' (demo_info ''000001'') (trend_snapshot 1 2 3 20)) = ''hold''
 \<and> advice (get_trading_advice ''000001'' (demo_info ''000001'') (trend_snapshot 2 2 2 20)) = ''buy''
 \<and> advice (get_trading_advice ''000001'' (demo_info ''000001'') (trend_snapshot 3 2 1 20)) = ''buy''"
proof -
  have up: "fst (trend_advice (trend_snapshot 3 2 1 r)) = ''buy''" for r
    by (rule trend_snapshot_reads) simp
  have down: "fst (trend_advice (trend_snapshot 1 2 3 r)) = ''sell''" for r
    by (rule trend_snapshot_reads) simp
  have flat: "fst (trend_advice (trend_snapshot 2 2 2 r)) = ''hold''" for r
    by (rule trend_snapshot_reads) simp
  have high: "get_rsi (trend_snapshot cur m5 m10 80) > 70" for cur m5 m10
    by (simp add: trend_snapshot_reads)
  have low: "get_rsi (trend_snapshot cur m5 m10 20) < 30" for cur m5 m10
    by (simp add: trend_snapshot_reads)
  note m = momentum_override[where c = "''000001''" and info = "demo_info ''000001''"]
  from m[of "trend_snapshot 3 2 1 80"] up high
  have a: "advice (get_trading_advice ''000001'' (demo_info ''000001'') (trend_snapshot 3 2 1 80)) = ''hold''"
    by blast
  from m[of "trend_snapshot 2 2 2 80"] flat high
  have b: "advice (get_trading_advice ''000001'' (demo_info ''000001'') (trend_snapshot 2 2 2 80)) = ''sell''"
    by blast
  from m[of "trend_snapshot 1 2 3 80"] down high
  have c: "advice (get_trading_advice ''000001'' (demo_info ''000001'') (trend_snapshot 1 2 3 80)) = ''sell''"
    by blast
  from m[of "trend_snapshot 1 2 3 20"] down low
  have d: "advice (get_trading_advice ''000001'' (demo_info ''000001'') (trend_snapshot 1 2 3 20)) = ''hold''"
    by blast
  from m[of "trend_snapshot 2 2 2 20"] flat low
  have e: "advice (get_trading_advice ''000001'' (demo_info ''000001'') (trend_snapshot 2 2 2 20)) = ''buy''"
    by blast
  from m[of "trend_snapshot 3 2 1 20"] up low
  have f: "advice (get_trading_advice ''000001'' (demo_info ''000001'') (trend_snapshot 3 2 1 20)) = ''buy''"
    by blast
  from a b c d e f show ?thesis by blast
qed

text \<open>
  Claim C6. The confidence is 0.5, plus 0.2 when the absolute same-day growth exceeds 2,
  plus 0.15 when the momentum is below 20 or above 80, capped at 0.95; so it lies in
  [0.5, 0.95]. It is the confidence field of the advice, and it has no part in the
  advice itself: the advice is the overridden trend advice, a function of the
  indicators alone, the same for every realtime dict (and so for every growth and every
  confidence that goes with it).
\<close>

theorem confidence_score:
  "calculate_confidence info ind =
     min (0.5 + (if \<bar>estimate_growth info\<bar> > 2 then 0.2 else 0)
              + (if get_rsi ind < 20 \<or> get_rsi ind > 80 then 0.15 else 0)) 0.95
   \<and> 0.5 \<le> calculate_confidence info ind \<and> calculate_confidence info ind \<le> 0.95
   \<and> confidence (get_trading_advice c info ind) = calculate_confidence info ind
   \<and> advice (get_trading_advice c info ind) = fst (rsi_override (get_rsi ind) (trend_advice ind))
   \<and> advice (get_trading_advice c info ind) = advice (get_trading_advice c' info' ind)"
  by (simp add: advice_after_override calculate_confidence_def Let_def get_trading_advice_def
      split: prod.splits)

text \<open>
  Claim C10. For every input of \<^verbatim>\<open>get_trading_advice\<close> (any moving averages, present or
  absent, any momentum and current nav) the advice is one of \<^verbatim>\<open>"buy"\<close>, \<^verbatim>\<open>"sell"\<close>,
  \<^verbatim>\<open>"hold"\<close> and never \<^verbatim>\<open>"watch"\<close>; the chain on the same-day growth does give
  \<^verbatim>\<open>"watch"\<close>, for instance at a growth of -0.7.
\<close>

theorem trend_path_never_watch:
  "advice (get_trading_advice c info ind) \<in> {''buy'', ''sell'', ''hold''}
   \<and> advice (get_trading_advice c info ind) \<noteq> ''watch''
   \<and> fst (growth_advice (- 0.7)) = ''watch''"
proof -
  have m: "advice (get_trading_advice c info ind) \<in> {''buy'', ''sell'', ''hold''}"
    by (rule advice_range)
  then have "advice (get_trading_advice c info ind) \<noteq> ''watch''"
    by auto
  moreover have "fst (growth_advice (- 0.7)) = ''watch''"
    by (simp add: growth_advice_def)
  ultimately show ?thesis using m by simp
qed

section \<open>Properties of the analysis of a batch\<close>

lemma analyze_loop_dom: "dom (analyze_loop net codes results) = dom results \<union> set codes"
  by (induction codes arbitrary: results) auto

lemma analyze_loop_entry:
  "analyze_loop net codes results c =
     (if c \<in> set codes then Some (analyze_fund net c) else results c)"
  by (induction codes arbitrary: results) auto

lemma broken_history_raises: "calculate_technical_indicators broken_history = Inl TypeError"
  by (simp add: calculate_technical_indicators_def broken_history_def calculate_ma_def
      window_mean_def slice_def)

text \<open>
  Claim C9, as the code has it. The result of \<^verbatim>\<open>analyze_multiple_funds\<close> has an entry for
  every code of the batch and for no other, and the entry of a code is the report of
  \<^verbatim>\<open>analyze_fund\<close> for it, which depends on the responses for that code alone: nothing
  aborts the batch. The entry is an error report when the realtime request failed (or
  gave no name) and when the analysis raised; it is a success report with an advice among \<^verbatim>\<open>"buy"\<close>,
  \<^verbatim>\<open>"sell"\<close>, \<^verbatim>\<open>"hold"\<close> when the realtime dict has a name and the analysis returned. A
  failed history request is no error: the history counts as empty and the entry is a
  success report with the advice \<^verbatim>\<open>"hold"\<close>.
\<close>

theorem batch_analysis:
  "dom (analyze_multiple_funds net codes) = set codes
 \<and> (\<forall>c \<in> set codes. analyze_multiple_funds net codes c = Some (analyze_fund net c))
 \<and> (realtime_response net c = realtime_response net' c
      \<and> history_response net c = history_response net' c
      \<longrightarrow> analyze_fund net c = analyze_fund net' c)
 \<and> (realtime_response net c = None \<longrightarrow> analyze_fund net c = Error_report (Fund_unavailable c))
 \<and> (realtime_response net c = Some info \<and> name info = []
      \<longrightarrow> analyze_fund net c = Error_report (Fund_unavailable c))
 \<and> (realtime_response net c = Some info \<and> name info \<noteq> []
      \<and> calculate_technical_indicators (get_fund_history_nav net c) = Inl e
      \<longrightarrow> analyze_fund net c = Error_report (Exception_text e))
 \<and> (realtime_response net c = Some info \<and> name info \<noteq> []
      \<and> calculate_technical_indicators (get_fund_history_nav net c) = Inr ind
      \<longrightarrow> analyze_fund net c =
            Success_report \<lparr>fund_info = info,
              history_data_count = length (get_fund_history_nav net c),
              technical_indicators = ind, trading_advice = get_trading_advice c info ind\<rparr>
          \<and> advice (get_trading_advice c info ind) \<in> {''buy'', ''sell'', ''hold''})
 \<and> (realtime_response net c = Some info \<and> name info \<noteq> [] \<and> history_response net c = None
      \<longrightarrow> analyze_fund net c =
            Success_report \<lparr>fund_info = info, history_data_count = 0,
              technical_indicators = Empty_dict,
              trading_advice = \<lparr>advice = ''hold'', reason = [Trend_unclear],
                confidence = calculate_confidence info Empty_dict\<rparr>\<rparr>)"
proof (intro conjI impI ballI)
  show "dom (analyze_multiple_funds net codes) = set codes"
    by (simp add: analyze_multiple_funds_def analyze_loop_dom)
next
  fix c assume "c \<in> set codes"
  then show "analyze_multiple_funds net codes c = Some (analyze_fund net c)"
    by (simp add: analyze_multiple_funds_def analyze_loop_entry)
next
  assume "realtime_response net c = realtime_response net' c
      \<and> history_response net c = history_response net' c"
  then show "analyze_fund net c = analyze_fund net' c"
    by (simp add: analyze_fund_def get_fund_realtime_info_def get_fund_history_nav_def Let_def)
next
  assume "realtime_response net c = None"
  then show "analyze_fund net c = Error_report (Fund_unavailable c)"
    by (simp add: analyze_fund_def get_fund_realtime_info_def)
next
  assume "realtime_response net c = Some info \<and> name info = []"
  then show "analyze_fund net c = Error_report (Fund_unavailable c)"
    by (simp add: analyze_fund_def get_fund_realtime_info_def)
next
  assume "realtime_response net c = Some info \<and> name info \<noteq> []
      \<and> calculate_technical_indicators (get_fund_history_nav net c) = Inl e"
  then show "analyze_fund net c = Error_report (Exception_text e)"
    by (simp add: analyze_fund_def get_fund_realtime_info_def)
next
  assume "realtime_response net c = Some info \<and> name info \<noteq> []
      \<and> calculate_technical_indicators (get_fund_history_nav net c) = Inr ind"
  then show "analyze_fund net c =
            Success_report \<lparr>fund_info = info,
              history_data_count = length (get_fund_history_nav net c),
              technical_indicators = ind, trading_advice = get_trading_advice c info ind\<rparr>"
    by (simp add: analyze_fund_def get_fund_realtime_info_def)
next
  show "advice (get_trading_advice c info ind) \<in> {''buy'', ''sell'', ''hold''}"
    by (rule advice_range)
next
  assume "realtime_response net c = Some info \<and> name info \<noteq> [] \<and> history_response net c = None"
  then show "analyze_fund net c =
            Success_report \<lparr>fund_info = info, history_data_count = 0,
              technical_indicators = Empty_dict,
              trading_advice = \<lparr>advice = ''hold'', reason = [Trend_unclear],
                confidence = calculate_confidence info Empty_dict\<rparr>\<rparr>"
    by (simp add: analyze_fund_def get_fund_realtime_info_def get_fund_history_nav_def
        calculate_technical_indicators_def get_trading_advice_def trend_advice_def
        rsi_override_def get_rsi_def get_ma5_def get_ma10_def get_current_nav_def)
qed

text \<open>The theorem at a batch of three funds where the realtime request of the second
  fails, and at a fund whose history holds a value that is not a number.\<close>

theorem batch_analysis_witness:
  "dom (analyze_multiple_funds net_realtime_fails [''000001'', ''000002'', ''000003''])
     = {''000001'', ''000002'', ''000003''}
 \<and> analyze_multiple_funds net_realtime_fails [''000001'', ''000002'', ''000003''] ''000002''
     = Some (Error_report (Fund_unavailable ''000002''))
 \<and> analyze_multiple_funds net_realtime_fails [''000001'', ''000002'', ''000003''] ''000001''
     = Some (Success_report \<lparr>fund_info = demo_info ''000001'', history_data_count = 5,
         technical_indicators = scenario_snapshot,
         trading_advice = get_trading_advice ''000001'' (demo_info ''000001'') scenario_snapshot\<rparr>)
 \<and> analyze_multiple_funds net_realtime_fails [''000001'', ''000002'', ''000003''] ''000003''
     = Some (Success_report \<lparr>fund_info = demo_info ''000003'', history_data_count = 5,
         technical_indicators = scenario_snapshot,
         trading_advice = get_trading_advice ''000003'' (demo_info ''000003'') scenario_snapshot\<rparr>)
 \<and> analyze_fund net_broken_history ''000001'' = Error_report (Exception_text TypeError)"
proof -
  let ?codes = "[''000001'', ''000002'', ''000003'']"
  note b = batch_analysis[where net = net_realtime_fails and codes = ?codes]
  note b_dom = b[THEN conjunct1]
  note b_entry = b[THEN conjunct2, THEN conjunct1, rule_format]
  note b_none = b[THEN conjunct2, THEN conjunct2, THEN conjunct2, THEN conjunct1, rule_format]
  note b_ok = b[THEN conjunct2, THEN conjunct2, THEN conjunct2, THEN conjunct2, THEN conjunct2,
      THEN conjunct2, THEN conjunct1, rule_format, THEN conjunct1]
  note b_raise = batch_analysis[where net = net_broken_history, THEN conjunct2, THEN conjunct2,
      THEN conjunct2, THEN conjunct2, THEN conjunct2, THEN conjunct1, rule_format]
  have r2: "realtime_response net_realtime_fails ''000002'' = None"
    by (simp add: net_realtime_fails_def)
  have r: "realtime_response net_realtime_fails c = Some (demo_info c)"
    if "c \<noteq> ''000002''" for c
    using that by (simp add: net_realtime_fails_def)
  have n: "name (demo_info c) \<noteq> []" for c
    by (simp add: demo_info_def)
  have i: "calculate_technical_indicators (get_fund_history_nav net_realtime_fails c)
      = Inr scenario_snapshot" for c
    by (simp add: net_realtime_fails_def get_fund_history_nav_def scenario_indicators)
  have len: "length (get_fund_history_nav net_realtime_fails c) = 5" for c
    by (simp add: net_realtime_fails_def get_fund_history_nav_def scenario_history_def)
  have d: "dom (analyze_multiple_funds net_realtime_fails ?codes) = {''000001'', ''000002'', ''000003''}"
    using b_dom by simp
  have e1: "analyze_multiple_funds net_realtime_fails ?codes ''000001''
      = Some (analyze_fund net_realtime_fails ''000001'')"
    by (rule b_entry) simp
  have e2: "analyze_multiple_funds net_realtime_fails ?codes ''000002''
      = Some (analyze_fund net_realtime_fails ''000002'')"
    by (rule b_entry) simp
  have e3: "analyze_multiple_funds net_realtime_fails ?codes ''000003''
      = Some (analyze_fund net_realtime_fails ''000003'')"
    by (rule b_entry) simp
  have f2: "analyze_fund net_realtime_fails ''000002'' = Error_report (Fund_unavailable ''000002'')"
    using r2 by (rule b_none)
  have f1: "analyze_fund net_realtime_fails ''000001'' =
      Success_report \<lparr>fund_info = demo_info ''000001'', history_data_count = 5,
         technical_indicators = scenario_snapshot,
         trading_advice = get_trading_advice ''000001'' (demo_info ''000001'') scenario_snapshot\<rparr>"
    using b_ok[of "''000001''" "demo_info ''000001''" scenario_snapshot] r[of "''000001''"] n i
    by (simp add: len)
  have f3: "analyze_fund net_realtime_fails ''000003'' =
      Success_report \<lparr>fund_info = demo_info ''000003'', history_data_count = 5,
         technical_indicators = scenario_snapshot,
         trading_advice = get_trading_advice ''000003'' (demo_info ''000003'') scenario_snapshot\<rparr>"
    using b_ok[of "''000003''" "demo_info ''000003''" scenario_snapshot] r[of "''000003''"] n i
    by (simp add: len)
  have h: "realtime_response net_broken_history ''000001'' = Some (demo_info ''000001'')
      \<and> name (demo_info ''000001'') \<noteq> []
      \<and> calculate_technical_indicators (get_fund_history_nav net_broken_history ''000001'')
          = Inl TypeError"
    by (simp add: net_broken_history_def demo_info_def get_fund_history_nav_def broken_history_raises)
  have g: "analyze_fund net_broken_history ''000001'' = Error_report (Exception_text TypeError)"
    using h by (rule b_raise)
  show ?thesis
    unfolding e1 e2 e3 f1 f2 f3 g d by simp
qed

text \<open>
  Claim C9 as stated makes the entry of every instrument with a failed fetch an error
  marker. When the history request of a fund fails and its realtime request does not,
  the entry is a success report with the advice \<^verbatim>\<open>"hold"\<close>.
\<close>

theorem batch_analysis_counterexample:
  "history_response net_history_fails ''000001'' = None
   \<and> status (analyze_fund net_history_fails ''000001'') = ''success''
   \<and> analyze_multiple_funds net_history_fails [''000001''] ''000001''
       = Some (Success_report \<lparr>fund_info = demo_info ''000001'', history_data_count = 0,
              technical_indicators = Empty_dict,
              trading_advice = \<lparr>advice = ''hold'', reason = [Trend_unclear], confidence = 0.5\<rparr>\<rparr>)"
  by (simp add: analyze_multiple_funds_def analyze_fund_def get_fund_realtime_info_def
      get_fund_history_nav_def net_history_fails_def demo_info_def status_def
      calculate_technical_indicators_def get_trading_advice_def trend_advice_def
      rsi_override_def get_rsi_def get_ma5_def get_ma10_def get_current_nav_def
      calculate_confidence_def)

section \<open>Properties of the cache and of the advice from growth alone\<close>

lemma lookup_fresh:
  assumes "fund_cache st (cache_key code) = Some (p, ts)" and "now - ts < cache_timeout st"
  shows "get_fund_realtime_info_simple st code now outcome = (Inr p, st)"
  using assms by (simp add: get_fund_realtime_info_simple_def cache_hit_def)

lemma stale_is_miss:
  assumes "fund_cache st (cache_key code) = Some (p, ts)" and "cache_timeout st \<le> now - ts"
  shows "cache_hit st (cache_key code) now = None"
  using assms by (simp add: cache_hit_def)

lemma try_fetch_state:
  assumes "try_fetch st key now outcome = Inr (d, st')"
  shows "st' = st\<lparr>fund_cache := (fund_cache st)(key \<mapsto> (d, now))\<rparr>"
  using assms by (auto simp: try_fetch_def split: http_outcome.splits sum.splits)

text \<open>The three ways in which the \<^verbatim>\<open>try\<close> block raises.\<close>

lemma try_fetch_raises:
  "try_fetch st key now Get_raises = Inl RequestException"
  "try_fetch st key now Status_raises = Inl RequestException"
  "map_of data ''gszzl'' = Some (JText s) \<Longrightarrow> try_fetch st key now (Parsed data) = Inl ValueError"
  by (simp_all add: try_fetch_def convert_key_def py_float_def)

lemma lookup_miss_ok:
  assumes "cache_hit st (cache_key code) now = None"
    and "try_fetch (logged st code) (cache_key code) now outcome = Inr (d, st')"
  shows "get_fund_realtime_info_simple st code now outcome = (Inr d, st')"
  using assms by (simp add: get_fund_realtime_info_simple_def)

lemma lookup_miss_fail:
  assumes "cache_hit st (cache_key code) now = None"
    and "try_fetch (logged st code) (cache_key code) now outcome = Inl e"
  shows "get_fund_realtime_info_simple st code now outcome = (Inr [], logged st code)"
  using assms by (simp add: get_fund_realtime_info_simple_def)

lemma lookup_miss_log:
  assumes "cache_hit st (cache_key code) now = None"
  shows "session_gets (snd (get_fund_realtime_info_simple st code now outcome))
           = session_gets st @ [code]"
proof (cases "try_fetch (logged st code) (cache_key code) now outcome")
  case (Inl e)
  from lookup_miss_fail[OF assms this] show ?thesis
    by (simp add: logged_def)
next
  case (Inr r)
  obtain d st' where r: "r = (d, st')"
    by (cases r)
  from try_fetch_state[OF Inr[unfolded r]] lookup_miss_ok[OF assms Inr[unfolded r]]
  show ?thesis by (simp add: logged_def)
qed

lemma lookup_never_raises: "fst (get_fund_realtime_info_simple st code now outcome) \<noteq> Inl e"
  by (simp add: get_fund_realtime_info_simple_def Let_def
      split: option.splits sum.splits prod.splits)

lemma demo_try_fetch:
  "try_fetch st key now (Parsed (demo_payload g))
     = Inr (demo_converted g, st\<lparr>fund_cache := (fund_cache st)(key \<mapsto> (demo_converted g, now))\<rparr>)"
  by (simp add: try_fetch_def convert_key_def demo_payload_def demo_converted_def py_float_def)

lemma demo_lookup:
  "fst (get_fund_realtime_info_simple empty_system ''000001'' 1000 (Parsed (demo_payload g)))
     = Inr (demo_converted g)"
  by (simp add: get_fund_realtime_info_simple_def cache_hit_def empty_system_def demo_try_fetch
      Let_def)

text \<open>
  Claim C5. Whenever the realtime dict is not empty and its growth is the number \<open>g\<close>
  (0 when the key is missing), \<^verbatim>\<open>calculate_technical_indicators\<close> of the simple file
  returns the advice of the first test that holds, in this order: \<open>g > 1.0\<close> gives
  \<^verbatim>\<open>"sell"\<close> (take profit), \<open>g < -1.0\<close> gives \<^verbatim>\<open>"buy"\<close> (buy the dip), \<open>g > 0.5\<close> gives
  \<^verbatim>\<open>"hold"\<close>, \<open>g < -0.5\<close> gives \<^verbatim>\<open>"watch"\<close>, and everything else gives \<^verbatim>\<open>"hold"\<close>.
\<close>

theorem growth_only_path:
  assumes "fst (get_fund_realtime_info_simple st code now outcome) = Inr data"
    and "data \<noteq> []"
    and "growth_of data = Inr g"
  shows "\<exists>r. fst (calculate_technical_indicators_simple st code now outcome) = Inr (Advice_dict r)
     \<and> growth_rate r = g
     \<and> (advice_s r, reason_s r) = growth_advice g
     \<and> advice_s r =
         (if g > 1.0 then ''sell''
          else if g < - 1.0 then ''buy''
          else if g > 0.5 then ''hold''
          else if g < - 0.5 then ''watch''
          else ''hold'')
     \<and> (g > 1.0 \<longrightarrow> reason_s r = Take_profit g)
     \<and> (\<not> g > 1.0 \<and> g < - 1.0 \<longrightarrow> reason_s r = Dip_buy g)"
proof -
  obtain st' where "get_fund_realtime_info_simple st code now outcome = (Inr data, st')"
    using assms(1) by (cases "get_fund_realtime_info_simple st code now outcome") simp
  with assms(2,3) show ?thesis
    by (simp add: calculate_technical_indicators_simple_def growth_advice_def)
qed

text \<open>The theorem at a growth of 1.5 and at a growth of -1.2, on a fresh object.\<close>

theorem growth_only_path_witness:
  "(\<exists>r. fst (calculate_technical_indicators_simple empty_system ''000001'' 1000
            (Parsed (demo_payload 1.5))) = Inr (Advice_dict r)
        \<and> advice_s r = ''sell'' \<and> reason_s r = Take_profit 1.5)
   \<and> (\<exists>r. fst (calculate_technical_indicators_simple empty_system ''000001'' 1000
            (Parsed (demo_payload (- 1.2)))) = Inr (Advice_dict r)
        \<and> advice_s r = ''buy'' \<and> reason_s r = Dip_buy (- 1.2))"
proof -
  have ne: "demo_converted g \<noteq> []" for g
    by (simp add: demo_converted_def)
  have gr: "growth_of (demo_converted g) = Inr g" for g
    by (simp add: growth_of_def demo_converted_def)
  from growth_only_path[OF demo_lookup ne gr, of "1.5"]
  have a: "\<exists>r. fst (calculate_technical_indicators_simple empty_system ''000001'' 1000
            (Parsed (demo_payload 1.5))) = Inr (Advice_dict r)
        \<and> advice_s r = ''sell'' \<and> reason_s r = Take_profit 1.5"
    by auto
  from growth_only_path[OF demo_lookup ne gr, of "- 1.2"]
  have b: "\<exists>r. fst (calculate_technical_indicators_simple empty_system ''000001'' 1000
            (Parsed (demo_payload (- 1.2)))) = Inr (Advice_dict r)
        \<and> advice_s r = ''buy'' \<and> reason_s r = Dip_buy (- 1.2)"
    by auto
  from a b show ?thesis by blast
qed

text \<open>
  Claim C7. A lookup that finds an entry younger than the timeout returns the stored
  dict and leaves the object as it was: no request is made. After a lookup that missed
  and whose request succeeded, a second lookup for the same fund within the timeout
  returns the same dict and makes no request, so the two lookups made exactly one. A
  lookup that finds an entry as old as the timeout or older makes a request, and when
  the request succeeds it returns the new dict and stores it with the current time.
\<close>

theorem freshness_cache:
  "(fund_cache st (cache_key code) = Some (p, ts) \<and> now - ts < cache_timeout st
      \<longrightarrow> get_fund_realtime_info_simple st code now outcome = (Inr p, st))
 \<and> (cache_hit st (cache_key code) t1 = None
      \<and> try_fetch (logged st code) (cache_key code) t1 out1 = Inr (d, st1)
      \<and> t2 - t1 < cache_timeout st
      \<longrightarrow> get_fund_realtime_info_simple st code t1 out1 = (Inr d, st1)
        \<and> get_fund_realtime_info_simple st1 code t2 out2 = (Inr d, st1)
        \<and> session_gets st1 = session_gets st @ [code])
 \<and> (fund_cache st (cache_key code) = Some (p, ts) \<and> cache_timeout st \<le> now - ts
      \<longrightarrow> session_gets (snd (get_fund_realtime_info_simple st code now outcome))
            = session_gets st @ [code])
 \<and> (fund_cache st (cache_key code) = Some (p, ts) \<and> cache_timeout st \<le> now - ts
      \<and> try_fetch (logged st code) (cache_key code) now outcome = Inr (d', st')
      \<longrightarrow> get_fund_realtime_info_simple st code now outcome = (Inr d', st')
        \<and> fund_cache st' (cache_key code) = Some (d', now))"
proof (intro conjI impI)
  assume "fund_cache st (cache_key code) = Some (p, ts) \<and> now - ts < cache_timeout st"
  then show "get_fund_realtime_info_simple st code now outcome = (Inr p, st)"
    using lookup_fresh by blast
next
  assume a: "cache_hit st (cache_key code) t1 = None
      \<and> try_fetch (logged st code) (cache_key code) t1 out1 = Inr (d, st1)
      \<and> t2 - t1 < cache_timeout st"
  then show "get_fund_realtime_info_simple st code t1 out1 = (Inr d, st1)"
    using lookup_miss_ok by blast
  from a have s1: "st1 = (logged st code)
      \<lparr>fund_cache := (fund_cache (logged st code))(cache_key code \<mapsto> (d, t1))\<rparr>"
    using try_fetch_state by blast
  then show "session_gets st1 = session_gets st @ [code]"
    by (simp add: logged_def)
  from s1 a have "fund_cache st1 (cache_key code) = Some (d, t1)" "t2 - t1 < cache_timeout st1"
    by (simp_all add: logged_def)
  then show "get_fund_realtime_info_simple st1 code t2 out2 = (Inr d, st1)"
    by (rule lookup_fresh)
next
  assume "fund_cache st (cache_key code) = Some (p, ts) \<and> cache_timeout st \<le> now - ts"
  then have "cache_hit st (cache_key code) now = None"
    using stale_is_miss by blast
  then show "session_gets (snd (get_fund_realtime_info_simple st code now outcome))
      = session_gets st @ [code]"
    by (rule lookup_miss_log)
next
  assume a: "fund_cache st (cache_key code) = Some (p, ts) \<and> cache_timeout st \<le> now - ts
      \<and> try_fetch (logged st code) (cache_key code) now outcome = Inr (d', st')"
  then have m: "cache_hit st (cache_key code) now = None"
    using stale_is_miss by blast
  with a show "get_fund_realtime_info_simple st code now outcome = (Inr d', st')"
    using lookup_miss_ok by blast
  from a have "st' = (logged st code)
      \<lparr>fund_cache := (fund_cache (logged st code))(cache_key code \<mapsto> (d', now))\<rparr>"
    using try_fetch_state by blast
  then show "fund_cache st' (cache_key code) = Some (d', now)"
    by simp
qed

text \<open>The theorem on a fresh object: a lookup at time 1000 that fetches, a lookup at
  time 1100 that is served from the cache, and a lookup at time 1300, when the entry is
  300 seconds old, that fetches again.\<close>

theorem freshness_cache_witness:
  "get_fund_realtime_info_simple empty_system ''000001'' 1000 (Parsed (demo_payload 0.3))
     = (Inr (demo_converted 0.3), cached_system)
   \<and> get_fund_realtime_info_simple cached_system ''000001'' 1100 Get_raises
     = (Inr (demo_converted 0.3), cached_system)
   \<and> session_gets cached_system = [''000001'']
   \<and> session_gets (snd (get_fund_realtime_info_simple cached_system ''000001'' 1300
        (Parsed (demo_payload 0.5)))) = [''000001'', ''000001'']
   \<and> fund_cache (snd (get_fund_realtime_info_simple cached_system ''000001'' 1300
        (Parsed (demo_payload 0.5)))) (cache_key ''000001'') = Some (demo_converted 0.5, 1300)"
proof -
  let ?st2 = "(logged cached_system ''000001'')
          \<lparr>fund_cache := (fund_cache (logged cached_system ''000001''))
             (cache_key ''000001'' \<mapsto> (demo_converted 0.5, 1300))\<rparr>"
  have miss: "cache_hit empty_system (cache_key ''000001'') 1000 = None"
    by (simp add: cache_hit_def empty_system_def)
  have first: "try_fetch (logged empty_system ''000001'') (cache_key ''000001'') 1000
      (Parsed (demo_payload 0.3)) = Inr (demo_converted 0.3, cached_system)"
    by (simp add: demo_try_fetch logged_def empty_system_def cached_system_def)
  have within: "(1100::real) - 1000 < cache_timeout empty_system"
    by (simp add: empty_system_def)
  have entry: "fund_cache cached_system (cache_key ''000001'') = Some (demo_converted 0.3, 1000)"
    by (simp add: cached_system_def)
  have stale: "cache_timeout cached_system \<le> (1300::real) - 1000"
    by (simp add: cached_system_def)
  have again: "try_fetch (logged cached_system ''000001'') (cache_key ''000001'') 1300
      (Parsed (demo_payload 0.5)) = Inr (demo_converted 0.5, ?st2)"
    by (rule demo_try_fetch)
  note t = freshness_cache[where st = empty_system and code = "''000001''" and ?t1.0 = 1000
      and ?t2.0 = 1100 and ?out1.0 = "Parsed (demo_payload 0.3)" and ?out2.0 = Get_raises
      and d = "demo_converted 0.3" and ?st1.0 = cached_system]
  note u = freshness_cache[where st = cached_system and code = "''000001''" and now = 1300
      and p = "demo_converted 0.3" and ts = 1000 and outcome = "Parsed (demo_payload 0.5)"
      and d' = "demo_converted 0.5" and st' = ?st2]
  from t miss first within
  have a: "get_fund_realtime_info_simple empty_system ''000001'' 1000 (Parsed (demo_payload 0.3))
       = (Inr (demo_converted 0.3), cached_system)"
    and b: "get_fund_realtime_info_simple cached_system ''000001'' 1100 Get_raises
       = (Inr (demo_converted 0.3), cached_system)"
    by blast+
  have c: "session_gets cached_system = [''000001'']"
    by (simp add: cached_system_def)
  from u entry stale
  have d: "session_gets (snd (get_fund_realtime_info_simple cached_system ''000001'' 1300
        (Parsed (demo_payload 0.5)))) = session_gets cached_system @ [''000001'']"
    by blast
  from u entry stale again
  have e: "get_fund_realtime_info_simple cached_system ''000001'' 1300 (Parsed (demo_payload 0.5))
      = (Inr (demo_converted 0.5), ?st2)"
    by blast
  from a b c d e show ?thesis by simp
qed

text \<open>
  Claim C8, as the code has it. When a lookup has to fetch and the \<^verbatim>\<open>try\<close> block raises
  (the request fails, the status is an error, or a numeric field does not convert), no
  exception leaves \<^verbatim>\<open>get_fund_realtime_info\<close>: it returns the empty dict, which its
  caller \<^verbatim>\<open>calculate_technical_indicators\<close> reports as the error dict for that fund. The
  cache is unchanged, so an entry that was stale is still there.
\<close>

theorem failed_fetch:
  assumes "cache_hit st (cache_key code) now = None"
    and "try_fetch (logged st code) (cache_key code) now outcome = Inl e"
  shows "get_fund_realtime_info_simple st code now outcome = (Inr [], logged st code)
    \<and> fund_cache (logged st code) = fund_cache st
    \<and> calculate_technical_indicators_simple st code now outcome = (Inr Error_dict, logged st code)"
  using lookup_miss_fail[OF assms]
  by (simp add: calculate_technical_indicators_simple_def logged_def)

text \<open>The theorem at a stale entry with a failing status, where the entry of time 1000
  stays, and at a fresh object with a growth field that is not numeric.\<close>

theorem failed_fetch_witness:
  "get_fund_realtime_info_simple cached_system ''000001'' 1300 Status_raises
     = (Inr [], logged cached_system ''000001'')
   \<and> fund_cache (logged cached_system ''000001'') (cache_key ''000001'')
     = Some (demo_converted 0.3, 1000)
   \<and> fst (get_fund_realtime_info_simple empty_system ''000001'' 1300
        (Parsed [(''name'', JText ''demo''), (''gszzl'', JText ''--'')])) = Inr []"
proof -
  have stale: "cache_hit cached_system (cache_key ''000001'') 1300 = None"
    by (simp add: cache_hit_def cached_system_def)
  have fails: "try_fetch (logged cached_system ''000001'') (cache_key ''000001'') 1300 Status_raises
      = Inl RequestException"
    by (simp add: try_fetch_def)
  have miss: "cache_hit empty_system (cache_key ''000001'') 1300 = None"
    by (simp add: cache_hit_def empty_system_def)
  have bad: "try_fetch (logged empty_system ''000001'') (cache_key ''000001'') 1300
      (Parsed [(''name'', JText ''demo''), (''gszzl'', JText ''--'')]) = Inl ValueError"
    by (simp add: try_fetch_def convert_key_def py_float_def)
  from failed_fetch[OF stale fails] failed_fetch[OF miss bad] show ?thesis
    by (simp add: cached_system_def)
qed

text \<open>
  Claim C8 as stated lets the failure reach the caller and leaves the entry alone. At a
  stale entry and a request that raises, the call returns normally with the empty dict;
  and when the text that arrives does not parse (\<^verbatim>\<open>_parse_jsonp\<close> gives the empty dict
  without raising), the empty dict replaces the entry.
\<close>

theorem failed_fetch_counterexample:
  "try_fetch (logged cached_system ''000001'') (cache_key ''000001'') 1300 Get_raises
     = Inl RequestException
   \<and> fst (get_fund_realtime_info_simple cached_system ''000001'' 1300 Get_raises) = Inr []
   \<and> fund_cache (snd (get_fund_realtime_info_simple cached_system ''000001'' 1300 (Parsed [])))
        (cache_key ''000001'') = Some ([], 1300)"
  by (simp add: get_fund_realtime_info_simple_def cache_hit_def cached_system_def try_fetch_def
      convert_key_def logged_def)

end
